theory Spec2Isabelle
  imports Main
begin

section \<open>Chain boundary: provider, contract classes and Cairo enums\<close>

text \<open>
  The read action \<open>getOrderStatus\<close> of
  \<^verbatim>\<open>packages/core/src/actions/read/getOrderStatus.ts\<close> talks to the chain through
  the \<^verbatim>\<open>starknet\<close> library only: \<^verbatim>\<open>provider.getClassAt\<close>, the \<^verbatim>\<open>Contract\<close>
  class, \<^verbatim>\<open>CallData.compile\<close> and \<^verbatim>\<open>CairoCustomEnum\<close>. The library is not part
  of the repository, so its answers are parameters of the model: a provider is a
  record of functions giving, for each request, either a failure (a rejected promise)
  or the decoded answer. Every request that reaches the provider is logged as an
  \<open>rpc_event\<close>, so that "no contract call was made" and "the call went to this
  address" are statements about the returned log.
\<close>

type_synonym address = string

text \<open>An interface description (ABI), kept as the names of its entry points.\<close>

datatype Abi = Abi "string list"

text \<open>
  A thrown JavaScript value: \<^verbatim>\<open>new Error(msg)\<close> raised by the repository's own code,
  or a rejection coming out of the provider.
\<close>

datatype failure = Error string | RpcFailure string

text \<open>
  \<^verbatim>\<open>CairoCustomEnum\<close>: the object \<^verbatim>\<open>variant\<close> lists every variant name of the Cairo
  enum in declaration order; the inactive ones hold \<^verbatim>\<open>undefined\<close>.
  \<^verbatim>\<open>activeVariant()\<close> is the name of the first entry whose content is defined, and
  the empty string when there is none.
\<close>

datatype CairoCustomEnum = CairoCustomEnum (variant: "(string \<times> int list option) list")

definition activeVariant :: "CairoCustomEnum \<Rightarrow> string" where
  "activeVariant e =
     (case find (\<lambda>item. snd item \<noteq> None) (variant e) of
        None \<Rightarrow> []
      | Some item \<Rightarrow> fst item)"

record ContractClass =
  abi :: "Abi option"

record Provider =
  getClassAt :: "address \<Rightarrow> failure + ContractClass"
  callContract :: "Abi \<Rightarrow> address \<Rightarrow> string \<Rightarrow> int list \<Rightarrow> failure + CairoCustomEnum"

datatype rpc_event =
    GetClassAt address
  | CallContract Abi address string "int list"

text \<open>
  \<^verbatim>\<open>Config\<close> (declared in \<^verbatim>\<open>createConfig.ts\<close>, which is not at hand): the fields
  that the action, the hook and the demo script read. Further fields live in the
  record's extension.
\<close>

record Config =
  starknetProvider :: Provider
  starknetExecutorContract :: address
  starknetCurrencyContract :: address

text \<open>\<^verbatim>\<open>new Contract(abi, address, provider)\<close>.\<close>

record Contract =
  contract_abi :: Abi
  contract_address :: address
  providerOrAccount :: Provider

text \<open>
  Calling a view method of a \<^verbatim>\<open>Contract\<close> object is one provider call carrying the
  contract's own ABI and address.
\<close>

definition contract_call ::
  "Contract \<Rightarrow> string \<Rightarrow> int list \<Rightarrow> failure + CairoCustomEnum" where
  "contract_call c method calldata =
     callContract (providerOrAccount c) (contract_abi c) (contract_address c) method calldata"

text \<open>
  \<^verbatim>\<open>CallData.compile\<close> of an object whose fields are big integers: one felt per
  field, in field order.
\<close>

definition CallData_compile :: "(string \<times> int) list \<Rightarrow> int list" where
  "CallData_compile obj = map snd obj"

section \<open>getOrderStatus\<close>

record GetOrderStatusParameters =
  orderHash :: int

record GetOrderStatusResult =
  orderStatus :: string

text \<open>
  The source, step by step: fetch the class at \<^verbatim>\<open>config.starknetExecutorContract\<close>
  and take its \<^verbatim>\<open>abi\<close>; throw \<^verbatim>\<open>Error("no abi.")\<close> when it is undefined; build the
  contract object on the same address; compile the order hash; call
  \<^verbatim>\<open>get_order_status\<close>; return the active variant's name as a string.
  A rejected \<^verbatim>\<open>await\<close> propagates. The second component is the log of provider
  requests made, oldest first.
\<close>

definition getOrderStatus ::
  "'a Config_scheme \<Rightarrow> GetOrderStatusParameters \<Rightarrow>
     (failure + GetOrderStatusResult) \<times> rpc_event list" where
  "getOrderStatus config parameters =
     (let order_hash = orderHash parameters in
      case getClassAt (starknetProvider config) (starknetExecutorContract config) of
        Inl rejection \<Rightarrow> (Inl rejection, [GetClassAt (starknetExecutorContract config)])
      | Inr cls \<Rightarrow>
          (case abi cls of
             None \<Rightarrow> (Inl (Error ''no abi.''), [GetClassAt (starknetExecutorContract config)])
           | Some executorAbi \<Rightarrow>
               (let orderbookContract =
                      \<lparr>contract_abi = executorAbi,
                       contract_address = starknetExecutorContract config,
                       providerOrAccount = starknetProvider config\<rparr>;
                    order_hash_calldata = CallData_compile [(''order_hash'', order_hash)];
                    events =
                      [GetClassAt (starknetExecutorContract config),
                       CallContract (contract_abi orderbookContract)
                         (contract_address orderbookContract)
                         ''get_order_status'' order_hash_calldata]
                in case contract_call orderbookContract ''get_order_status''
                          order_hash_calldata of
                     Inl rejection \<Rightarrow> (Inl rejection, events)
                   | Inr status_enum \<Rightarrow>
                       (Inr \<lparr>orderStatus = activeVariant status_enum\<rparr>, events))))"

text \<open>Reading the log: which requests are contract calls, and the address each targets.\<close>

fun is_contract_call :: "rpc_event \<Rightarrow> bool" where
  "is_contract_call (GetClassAt _) = False"
| "is_contract_call (CallContract _ _ _ _) = True"

fun event_address :: "rpc_event \<Rightarrow> address" where
  "event_address (GetClassAt a) = a"
| "event_address (CallContract _ a _ _) = a"

section \<open>Per-network address tables\<close>

text \<open>
  The generated constants of the contracts file, as association lists in source
  order (a JavaScript object literal keeps insertion order).
\<close>

definition GOERLI_CONTRACTS :: "(string \<times> address) list" where
  "GOERLI_CONTRACTS =
     [(''nftContract'', ''0x22411b480425fe6e627fdf4d1b6ac7f8567314ada5617a0a6d8ef3e74b69436''),
      (''messaging'', ''0x2c3d3e0c37d29364a13ba8cff046e7bc5624655a72526961876a1c8bb3f63c8''),
      (''executor'', ''0x73148536f8ea9546e92761d11515548cc433df46883d5ee98871a6f63a0bbbc''),
      (''orderbook'', ''0x66f1e6acf9bdbd23837b2eea271430298b355c506978edb132737e7fcb6b310'')]"

definition SEPOLIA_CONTRACTS :: "(string \<times> address) list" where
  "SEPOLIA_CONTRACTS = []"

definition MAINNET_CONTRACTS :: "(string \<times> address) list" where
  "MAINNET_CONTRACTS =
     [(''nftContract'', ''0x32d99485b22f2e58c8a0206d3b3bb259997ff0db70cffd25585d7dd9a5b0546''),
      (''messaging'', ''0x57d45cc46de463f7ae63b74ce9b6b6b496a1178b02e7ad04d7c307caa698b7b''),
      (''executor'', ''0x7b42945bc47001db92fe1b9739d753925263f2f1036c2ae1f87536c916ee6a''),
      (''orderbook'', ''0x785873b81c8a3f076270868418c783e8faa5f2b86b87a1754947c650868feb8'')]"

definition DEV_CONTRACTS :: "(string \<times> address) list" where
  "DEV_CONTRACTS =
     [(''messaging'', ''0x3cb72f2da873bf35672d719161aabfebcd3a021b717cfbde576c43f58791704''),
      (''executor'', ''0x4976035b0b9b4a651751508b8df0ee054f2b25427625949ffc6487ea4439fa''),
      (''nftContract'', ''0x42c3bf5aa286bf34be0f7ab7312ad90c485134343a35c004091bd61b1267c6e''),
      (''eth'', ''0x200184bde479ccffa50a89485417c907bc1d3779f9b1863d2158733135facce''),
      (''orderbook'', ''0x34b25722ae80d1ca27555f6297237171570876974e62e7ef612e9942d08624c'')]"

text \<open>
  Reading a property of such an object, \<^verbatim>\<open>table[role]\<close>: the stored address, or
  \<^verbatim>\<open>undefined\<close> (here \<open>None\<close>) when the table has no such key.
\<close>

definition lookup_role :: "(string \<times> address) list \<Rightarrow> string \<Rightarrow> address option" where
  "lookup_role table role = map_of table role"






section \<open>The React hook useCancelCollectionOffer\<close>

text \<open>
  \<^verbatim>\<open>packages/react/src/hooks/useCancelCollectionOffer.ts\<close>. The hook owns one piece
  of React state, \<^verbatim>\<open>status\<close>, of type \<^verbatim>\<open>Status\<close> (the four string literals
  \<^verbatim>\<open>"idle" | "loading" | "success" | "error"\<close>). What the hook does to the outside
  is recorded in order: each \<^verbatim>\<open>setStatus\<close>, the call of the core action with its
  argument object, and each \<^verbatim>\<open>console.error\<close>.
\<close>

datatype Status = Status_idle | Status_loading | Status_success | Status_error

type_synonym AccountInterface = address

record CancelCollectionOfferInfo =
  info_orderHash :: int
  tokenAddress :: address

text \<open>\<^verbatim>\<open>type CancelParameters = { starknetAccount } & CancelCollectionOfferInfo\<close>.\<close>

record CancelParameters = CancelCollectionOfferInfo +
  starknetAccount :: AccountInterface

text \<open>The argument object the hook builds for the core action.\<close>

record CancelCollectionOfferParameters =
  arg_starknetAccount :: AccountInterface
  cancelInfo :: CancelCollectionOfferInfo

datatype hook_effect =
    SetStatus Status
  | CancelCollectionOfferCall CancelCollectionOfferParameters
  | ConsoleError failure

record HookState =
  status :: Status
  effects :: "hook_effect list"

text \<open>\<^verbatim>\<open>useState<Status>("idle")\<close>: the state of a freshly mounted hook.\<close>

definition useCancelCollectionOffer :: HookState where
  "useCancelCollectionOffer = \<lparr>status = Status_idle, effects = []\<rparr>"

definition setStatus :: "Status \<Rightarrow> HookState \<Rightarrow> HookState" where
  "setStatus s st = st\<lparr>status := s, effects := effects st @ [SetStatus s]\<rparr>"

definition console_error :: "failure \<Rightarrow> HookState \<Rightarrow> HookState" where
  "console_error err st = st\<lparr>effects := effects st @ [ConsoleError err]\<rparr>"

definition cancel_arguments :: "CancelParameters \<Rightarrow> CancelCollectionOfferParameters" where
  "cancel_arguments parameters =
     \<lparr>arg_starknetAccount = starknetAccount parameters,
      cancelInfo = \<lparr>info_orderHash = info_orderHash parameters,
                    tokenAddress = tokenAddress parameters\<rparr>\<rparr>"

text \<open>
  \<^verbatim>\<open>async function cancel(parameters)\<close>. The core action \<^verbatim>\<open>cancelCollectionOffer\<close>
  is imported from \<^verbatim>\<open>@ark-project/core\<close> and its source is not at hand: it is
  the first parameter, answering with a failure (a rejected promise or a throw) or
  with its result. The first component of the answer is what the promise returned by
  \<^verbatim>\<open>cancel\<close> settles to: \<open>Inl\<close> a rejection, \<open>Inr ()\<close> a fulfilment with
  \<^verbatim>\<open>undefined\<close>.
\<close>

definition cancel ::
  "('a Config_scheme \<Rightarrow> CancelCollectionOfferParameters \<Rightarrow> failure + 'r) \<Rightarrow>
     'a Config_scheme \<Rightarrow> CancelParameters \<Rightarrow> HookState \<Rightarrow> (failure + unit) \<times> HookState" where
  "cancel cancelCollectionOffer config parameters st =
     (let st1 = setStatus Status_loading st;
          args = cancel_arguments parameters;
          st2 = st1\<lparr>effects := effects st1 @ [CancelCollectionOfferCall args]\<rparr>
      in case cancelCollectionOffer config args of
           Inr _ \<Rightarrow> (Inr (), setStatus Status_success st2)
         | Inl err \<Rightarrow> (Inr (), console_error err (setStatus Status_error st2)))"

section \<open>Components described by the specification only\<close>

text \<open>
  The address registry's \<open>resolve\<close>, the approval coordinator, the order submitter
  and the polling status resolver are described by the specification only; no
  source file at hand defines or calls them. Each is modelled here from the
  specification's wording, over a small model of the ledger.
\<close>

subsection \<open>Client order status (specification, section 3)\<close>

text \<open>
  Modelled from the spec: the client-side enumeration \<open>OrderStatus\<close>, which no
  source file at hand declares: "enumerated {PendingApproval, PendingSubmission, Open,
  Executed, Cancelled, Expired, Unknown}".
\<close>

datatype OrderStatus =
  PendingApproval | PendingSubmission | Open | Executed | Cancelled | Expired | Unknown

text \<open>Modelled from the spec: the names of the values of \<open>OrderStatus\<close>, as strings.\<close>

fun OrderStatus_name :: "OrderStatus \<Rightarrow> string" where
  "OrderStatus_name PendingApproval = ''PendingApproval''"
| "OrderStatus_name PendingSubmission = ''PendingSubmission''"
| "OrderStatus_name Open = ''Open''"
| "OrderStatus_name Executed = ''Executed''"
| "OrderStatus_name Cancelled = ''Cancelled''"
| "OrderStatus_name Expired = ''Expired''"
| "OrderStatus_name Unknown = ''Unknown''"

definition OrderStatus_names :: "string list" where
  "OrderStatus_names =
     map OrderStatus_name
       [PendingApproval, PendingSubmission, Open, Executed, Cancelled, Expired, Unknown]"

subsection \<open>Address registry (specification, section 4.1)\<close>



subsection \<open>Ledger model\<close>

text \<open>
  Modelled from the spec: \<open>OrderHash\<close> (section 3), "an opaque fixed-width
  identifier"; an integer, as the order hash is a \<^verbatim>\<open>bigint\<close> in the sources.
\<close>

type_synonym OrderHash = int

text \<open>
  Modelled from the spec: \<open>OrderIntent\<close> (section 3). The amount range is the
  start amount and, for a time-decaying order, an end amount.
\<close>

record OrderIntent =
  brokerId :: address
  intent_tokenAddress :: address
  tokenId :: "int option"
  startAmount :: nat
  endAmount :: "nat option"
  currencyAddress :: address
  expiration :: nat
  nonce :: nat

text \<open>
  Modelled from the spec: the two state-changing calls of the submit sequence
  (section 4.5), an approval (\<open>ApprovalGrant\<close>: owner, spender, currency, amount) and
  an order creation keyed by the order's hash.
\<close>

datatype tx =
    ApproveTx address address address nat
  | CreateOrderTx address OrderHash

text \<open>
  Modelled from the spec: what a caller can observe of a write (sections 4.2 and
  5): its broadcast, and later its inclusion or its revert.
\<close>

datatype chain_event =
    Broadcast tx
  | InclusionObserved tx
  | RevertObserved tx

text \<open>
  Modelled from the spec: the ledger as the client sees it. \<open>allowances\<close> is keyed
  by (owner, spender, currency); \<open>orders\<close> gives each hash its status;
  \<open>reverting\<close> is the ledger's verdict on a transaction (the revert reason when
  it would revert); \<open>trace\<close> is the sequence of broadcasts and observed outcomes,
  oldest first.
\<close>

record chain =
  allowances :: "address \<times> address \<times> address \<Rightarrow> nat"
  orders :: "OrderHash \<Rightarrow> OrderStatus"
  reverting :: "tx \<Rightarrow> string option"
  trace :: "chain_event list"

text \<open>
  Modelled from the spec: the failures of the error taxonomy (section 7) that the
  modelled components raise, each with its reason. \<open>StatusReadError\<close> is a
  failure of the status read, passed on by the poll as it was thrown.
\<close>

datatype lifecycle_error =
    ApprovalError string
  | SubmissionError string
  | TimeoutError
  | StatusReadError failure

text \<open>Modelled from the spec: the effect of an included transaction on the ledger.\<close>

fun apply_tx :: "tx \<Rightarrow> chain \<Rightarrow> chain" where
  "apply_tx (ApproveTx owner spender currency amount) ch =
     ch\<lparr>allowances := (allowances ch)((owner, spender, currency) := amount)\<rparr>"
| "apply_tx (CreateOrderTx account h) ch =
     ch\<lparr>orders := (orders ch)(h := Open)\<rparr>"

text \<open>
  Modelled from the spec: the gateway's \<open>write\<close> (section 4.2), "returns
  immediately with a handle; awaiting/inclusion is the caller's responsibility":
  the transaction is broadcast and nothing else changes.
\<close>

definition gateway_write :: "tx \<Rightarrow> chain \<Rightarrow> chain" where
  "gateway_write t ch = ch\<lparr>trace := trace ch @ [Broadcast t]\<rparr>"

text \<open>
  Modelled from the spec: awaiting a broadcast transaction (section 5). The caller
  is suspended until the ledger has decided: a revert is reported with its reason
  and changes nothing else, an inclusion applies the transaction.
\<close>

definition await_inclusion :: "tx \<Rightarrow> chain \<Rightarrow> (string + unit) \<times> chain" where
  "await_inclusion t ch =
     (case reverting ch t of
        Some reason \<Rightarrow> (Inl reason, ch\<lparr>trace := trace ch @ [RevertObserved t]\<rparr>)
      | None \<Rightarrow> (Inr (), (apply_tx t ch)\<lparr>trace := trace ch @ [InclusionObserved t]\<rparr>))"

subsection \<open>Approval coordinator (specification, section 4.3)\<close>

text \<open>
  Modelled from the spec: \<open>ensureAllowance\<close>, whose source is not at hand: "read
  current allowance via Gateway; if current >= required, return immediately
  (idempotent, no transaction). Otherwise submit an approval write for exactly
  required (not unbounded) and await its inclusion before returning." A reverted
  approval is an \<open>ApprovalError\<close> (section 7). The spender is given by its
  address.
\<close>

definition ensureAllowance ::
  "address \<Rightarrow> address \<Rightarrow> address \<Rightarrow> nat \<Rightarrow> chain \<Rightarrow> (lifecycle_error + unit) \<times> chain" where
  "ensureAllowance account spender currency required ch =
     (let current = allowances ch (account, spender, currency) in
      if current \<ge> required then (Inr (), ch)
      else
        (let approval = ApproveTx account spender currency required;
             ch1 = gateway_write approval ch
         in case await_inclusion approval ch1 of
              (Inl reason, ch2) \<Rightarrow> (Inl (ApprovalError reason), ch2)
            | (Inr _, ch2) \<Rightarrow> (Inr (), ch2)))"

subsection \<open>Order submitter (specification, section 4.5)\<close>

text \<open>
  Modelled from the spec: \<open>submit\<close>, whose source is not at hand. The four
  steps of section 4.5 in order: the hash of the intent (the hash function is a
  parameter; the validation of section 4.4 is not part of this model),
  \<open>ensureAllowance\<close> for the intent's currency and amount (the start amount, as
  the demo script passes \<^verbatim>\<open>amount: offer.startAmount\<close>), the creation write, and
  the wait for its inclusion. A revert of the creation is a \<open>SubmissionError\<close>
  carrying the reason. The retry of transient failures is not part of this
  model.
\<close>

definition submit ::
  "(OrderIntent \<Rightarrow> OrderHash) \<Rightarrow> address \<Rightarrow> address \<Rightarrow> OrderIntent \<Rightarrow> chain \<Rightarrow>
     (lifecycle_error + OrderHash) \<times> chain" where
  "submit hash spender account intent ch =
     (let h = hash intent in
      case ensureAllowance account spender (currencyAddress intent) (startAmount intent) ch of
        (Inl err, ch1) \<Rightarrow> (Inl err, ch1)
      | (Inr _, ch1) \<Rightarrow>
          (let creation = CreateOrderTx account h;
               ch2 = gateway_write creation ch1
           in case await_inclusion creation ch2 of
                (Inl reason, ch3) \<Rightarrow> (Inl (SubmissionError reason), ch3)
              | (Inr _, ch3) \<Rightarrow> (Inr h, ch3)))"

text \<open>The events a run added to the trace.\<close>

definition new_events :: "chain \<Rightarrow> chain \<Rightarrow> chain_event list" where
  "new_events ch0 ch1 = drop (length (trace ch0)) (trace ch1)"

text \<open>The transactions broadcast in a sequence of events, in order.\<close>

fun broadcasts :: "chain_event list \<Rightarrow> tx list" where
  "broadcasts [] = []"
| "broadcasts (Broadcast t # evs) = t # broadcasts evs"
| "broadcasts (_ # evs) = broadcasts evs"

subsection \<open>Status resolver: polling (specification, sections 4.6 and 5)\<close>




section \<open>Example inputs\<close>

text \<open>
  Concrete inputs on which the results below are evaluated: the development
  network's executor, currency and order-book addresses, a provider that knows the
  executor only, and two answers of \<^verbatim>\<open>get_order_status\<close>.
\<close>

definition dev_executor :: address where
  "dev_executor = ''0x4976035b0b9b4a651751508b8df0ee054f2b25427625949ffc6487ea4439fa''"

definition dev_eth :: address where
  "dev_eth = ''0x200184bde479ccffa50a89485417c907bc1d3779f9b1863d2158733135facce''"

definition dev_orderbook :: address where
  "dev_orderbook = ''0x34b25722ae80d1ca27555f6297237171570876974e62e7ef612e9942d08624c''"

definition executor_abi :: Abi where
  "executor_abi = Abi [''get_order_status'', ''create_order'', ''cancel_order'']"

definition example_provider :: "Abi option \<Rightarrow> CairoCustomEnum \<Rightarrow> Provider" where
  "example_provider abi_answer answer =
     \<lparr>getClassAt = (\<lambda>a. if a = dev_executor then Inr \<lparr>abi = abi_answer\<rparr>
                         else Inl (RpcFailure ''Contract not found'')),
      callContract = (\<lambda>i a m cd. if a = dev_executor \<and> m = ''get_order_status'' then Inr answer
                                  else Inl (RpcFailure ''Contract not found''))\<rparr>"

definition example_config :: "Provider \<Rightarrow> Config" where
  "example_config p =
     \<lparr>starknetProvider = p, starknetExecutorContract = dev_executor,
      starknetCurrencyContract = dev_eth\<rparr>"

definition status_open :: CairoCustomEnum where
  "status_open = CairoCustomEnum [(''Open'', Some []), (''Fulfilled'', None), (''Executed'', None)]"

definition status_fulfilled :: CairoCustomEnum where
  "status_fulfilled = CairoCustomEnum [(''Open'', None), (''Fulfilled'', Some []), (''Executed'', None)]"


text \<open>
  A provider that knows two contracts, the executor and the order book, each with
  its own answer to \<^verbatim>\<open>get_order_status\<close>.
\<close>

definition two_contract_provider :: "CairoCustomEnum \<Rightarrow> CairoCustomEnum \<Rightarrow> Provider" where
  "two_contract_provider executor_answer orderbook_answer =
     \<lparr>getClassAt = (\<lambda>a. if a = dev_executor \<or> a = dev_orderbook
                         then Inr \<lparr>abi = Some executor_abi\<rparr>
                         else Inl (RpcFailure ''Contract not found'')),
      callContract = (\<lambda>i a m cd.
         if m = ''get_order_status'' \<and> a = dev_executor then Inr executor_answer
         else if m = ''get_order_status'' \<and> a = dev_orderbook then Inr orderbook_answer
         else Inl (RpcFailure ''Contract not found''))\<rparr>"


definition example_cancel_parameters :: CancelParameters where
  "example_cancel_parameters =
     \<lparr>info_orderHash = 42, tokenAddress = ''0x42c3bf5aa286bf34be0f7ab7312ad90c485134343a35c004091bd61b1267c6e'',
      starknetAccount = ''0x1''\<rparr>"

definition rejecting_cancelCollectionOffer ::
  "Config \<Rightarrow> CancelCollectionOfferParameters \<Rightarrow> failure + unit" where
  "rejecting_cancelCollectionOffer config args = Inl (RpcFailure ''transaction reverted'')"

definition example_account :: address where
  "example_account = ''0x1''"

definition example_chain :: "nat \<Rightarrow> chain" where
  "example_chain allowance =
     \<lparr>allowances = (\<lambda>_. allowance), orders = (\<lambda>_. PendingSubmission),
      reverting = (\<lambda>_. None), trace = []\<rparr>"

definition example_intent :: "nat \<Rightarrow> OrderIntent" where
  "example_intent amount =
     \<lparr>brokerId = ''0x2'', intent_tokenAddress = ''0x3'', tokenId = Some 1,
      startAmount = amount, endAmount = None, currencyAddress = dev_eth,
      expiration = 1000, nonce = 0\<rparr>"

definition example_hash :: "OrderIntent \<Rightarrow> OrderHash" where
  "example_hash intent = 1 + int (nonce intent)"

section \<open>Results on the source files\<close>

subsection \<open>getOrderStatus\<close>

text \<open>
  For an enum with exactly one defined entry, \<^verbatim>\<open>activeVariant()\<close> is that entry's
  name.
\<close>

lemma activeVariant_one_hot:
  assumes "\<forall>item \<in> set inactive. snd item = None"
  shows "activeVariant (CairoCustomEnum (inactive @ (tag, Some content) # others)) = tag"
proof -
  from assms
  have "find (\<lambda>item. snd item \<noteq> None) (inactive @ (tag, Some content) # others)
          = Some (tag, Some content)"
    by (induction inactive) simp_all
  then show ?thesis
    by (simp add: activeVariant_def)
qed

text \<open>
  Claim C1, as amended. \<open>getOrderStatus\<close> has no translation table: whenever the
  executor's ABI is resolved and the \<^verbatim>\<open>get_order_status\<close> call answers, the result
  is the name of the answer's active variant, unchanged, for every order hash and
  every tag. No tag makes it raise, and no tag is turned into \<open>Unknown\<close>.
\<close>

theorem getOrderStatus_returns_active_variant:
  assumes "getClassAt (starknetProvider config) (starknetExecutorContract config) = Inr cls"
    and "abi cls = Some executorAbi"
    and "callContract (starknetProvider config) executorAbi (starknetExecutorContract config)
           ''get_order_status'' [orderHash parameters] = Inr status_enum"
  shows "fst (getOrderStatus config parameters) = Inr \<lparr>orderStatus = activeVariant status_enum\<rparr>"
  using assms by (simp add: getOrderStatus_def contract_call_def CallData_compile_def)

text \<open>The statement above at the example configuration, the chain answering \<open>Open\<close>.\<close>

theorem getOrderStatus_returns_active_variant_witness:
  "fst (getOrderStatus (example_config (example_provider (Some executor_abi) status_open))
         \<lparr>orderHash = 7\<rparr>) = Inr \<lparr>orderStatus = ''Open''\<rparr>"
proof -
  let ?config = "example_config (example_provider (Some executor_abi) status_open)"
  have h1: "getClassAt (starknetProvider ?config) (starknetExecutorContract ?config)
              = Inr \<lparr>abi = Some executor_abi\<rparr>"
    by (simp add: example_config_def example_provider_def)
  have h2: "abi \<lparr>abi = Some executor_abi\<rparr> = Some executor_abi"
    by simp
  have h3: "callContract (starknetProvider ?config) executor_abi (starknetExecutorContract ?config)
              ''get_order_status'' [orderHash \<lparr>orderHash = 7\<rparr>] = Inr status_open"
    by (simp add: example_config_def example_provider_def)
  have "activeVariant status_open = ''Open''"
    by (simp add: activeVariant_def status_open_def)
  with getOrderStatus_returns_active_variant [OF h1 h2 h3] show ?thesis
    by simp
qed

text \<open>
  Claim C1 as written fails: the chain tag \<open>Fulfilled\<close> is none of the client's
  \<open>OrderStatus\<close> names, so a translation table with an \<open>Unknown\<close> fallback would
  answer \<open>Unknown\<close>; \<open>getOrderStatus\<close> answers \<open>Fulfilled\<close>.
\<close>

theorem getOrderStatus_unmapped_tag_counterexample:
  "fst (getOrderStatus (example_config (example_provider (Some executor_abi) status_fulfilled))
         \<lparr>orderHash = 1\<rparr>) = Inr \<lparr>orderStatus = ''Fulfilled''\<rparr>
   \<and> ''Fulfilled'' \<noteq> OrderStatus_name Unknown
   \<and> ''Fulfilled'' \<notin> set OrderStatus_names"
  by (simp add: getOrderStatus_def contract_call_def CallData_compile_def example_config_def
      example_provider_def activeVariant_def status_fulfilled_def OrderStatus_names_def)

text \<open>
  Claim C2. When the class fetched at the executor address carries no ABI,
  \<open>getOrderStatus\<close> fails with \<^verbatim>\<open>Error("no abi.")\<close>; the only request made is the class
  fetch, so no contract object is used and \<^verbatim>\<open>get_order_status\<close> is never called.
\<close>

theorem getOrderStatus_no_abi_aborts:
  assumes "getClassAt (starknetProvider config) (starknetExecutorContract config) = Inr cls"
    and "abi cls = None"
  shows "fst (getOrderStatus config parameters) = Inl (Error ''no abi.'')
         \<and> snd (getOrderStatus config parameters) = [GetClassAt (starknetExecutorContract config)]
         \<and> filter is_contract_call (snd (getOrderStatus config parameters)) = []"
  using assms by (simp add: getOrderStatus_def)

theorem getOrderStatus_no_abi_aborts_witness:
  "fst (getOrderStatus (example_config (example_provider None status_open)) \<lparr>orderHash = 7\<rparr>)
     = Inl (Error ''no abi.'')
   \<and> snd (getOrderStatus (example_config (example_provider None status_open)) \<lparr>orderHash = 7\<rparr>)
     = [GetClassAt dev_executor]
   \<and> filter is_contract_call
        (snd (getOrderStatus (example_config (example_provider None status_open))
               \<lparr>orderHash = 7\<rparr>)) = []"
proof -
  let ?config = "example_config (example_provider None status_open)"
  have h1: "getClassAt (starknetProvider ?config) (starknetExecutorContract ?config)
              = Inr \<lparr>abi = None\<rparr>"
    by (simp add: example_config_def example_provider_def)
  have h2: "abi \<lparr>abi = None\<rparr> = None"
    by simp
  have "starknetExecutorContract ?config = dev_executor"
    by (simp add: example_config_def)
  with getOrderStatus_no_abi_aborts [OF h1 h2, of "\<lparr>orderHash = 7\<rparr>"] show ?thesis
    by simp
qed

text \<open>The log of \<open>getOrderStatus\<close> has one of two shapes.\<close>

lemma getOrderStatus_log:
  "snd (getOrderStatus config parameters) = [GetClassAt (starknetExecutorContract config)]
   \<or> (\<exists>executorAbi. snd (getOrderStatus config parameters) =
         [GetClassAt (starknetExecutorContract config),
          CallContract executorAbi (starknetExecutorContract config) ''get_order_status''
            [orderHash parameters]])"
  by (auto simp add: getOrderStatus_def contract_call_def CallData_compile_def Let_def
      split: sum.splits option.splits)

text \<open>
  Claim C9. \<open>getOrderStatus\<close> reads the order's status from the contract at
  \<^verbatim>\<open>config.starknetExecutorContract\<close> and from nowhere else. Every request it makes
  is addressed there, the ABI lookup being the first. Once the ABI is resolved, the
  requests are exactly that lookup and one call of \<^verbatim>\<open>get_order_status\<close>, made with
  that ABI at that address on the compiled order hash, and the outcome is that
  call's outcome: its rejection, or the active variant of its answer. The outcome
  is the same for any two configurations that agree on the executor address and on
  what the provider answers at that address: no other configured address, and
  nothing the chain holds at another address (an order book's in particular),
  takes part.
\<close>

theorem getOrderStatus_targets_executor:
  "(\<forall>ev \<in> set (snd (getOrderStatus config parameters)).
      event_address ev = starknetExecutorContract config)
   \<and> hd (snd (getOrderStatus config parameters)) = GetClassAt (starknetExecutorContract config)
   \<and> (\<forall>config'. starknetProvider config' = starknetProvider config
         \<and> starknetExecutorContract config' = starknetExecutorContract config
         \<longrightarrow> getOrderStatus config' parameters = getOrderStatus config parameters)
   \<and> (\<forall>cls executorAbi.
         getClassAt (starknetProvider config) (starknetExecutorContract config) = Inr cls
         \<and> abi cls = Some executorAbi
         \<longrightarrow> snd (getOrderStatus config parameters) =
               [GetClassAt (starknetExecutorContract config),
                CallContract executorAbi (starknetExecutorContract config) ''get_order_status''
                  [orderHash parameters]]
             \<and> fst (getOrderStatus config parameters) =
               (case callContract (starknetProvider config) executorAbi
                       (starknetExecutorContract config) ''get_order_status''
                       [orderHash parameters] of
                  Inl rejection \<Rightarrow> Inl rejection
                | Inr status_enum \<Rightarrow> Inr \<lparr>orderStatus = activeVariant status_enum\<rparr>))
   \<and> (\<forall>config'. starknetExecutorContract config' = starknetExecutorContract config
         \<and> getClassAt (starknetProvider config') (starknetExecutorContract config)
             = getClassAt (starknetProvider config) (starknetExecutorContract config)
         \<and> (\<forall>executorAbi method calldata.
               callContract (starknetProvider config') executorAbi
                 (starknetExecutorContract config) method calldata
               = callContract (starknetProvider config) executorAbi
                   (starknetExecutorContract config) method calldata)
         \<longrightarrow> getOrderStatus config' parameters = getOrderStatus config parameters)"
proof (intro conjI allI impI)
  show "\<forall>ev \<in> set (snd (getOrderStatus config parameters)).
          event_address ev = starknetExecutorContract config"
    using getOrderStatus_log [of config parameters] by auto
  show "hd (snd (getOrderStatus config parameters)) = GetClassAt (starknetExecutorContract config)"
    using getOrderStatus_log [of config parameters] by auto
next
  fix config' :: "'b Config_scheme"
  assume "starknetProvider config' = starknetProvider config
          \<and> starknetExecutorContract config' = starknetExecutorContract config"
  then have p: "starknetProvider config' = starknetProvider config"
    and e: "starknetExecutorContract config' = starknetExecutorContract config"
    by simp_all
  show "getOrderStatus config' parameters = getOrderStatus config parameters"
    unfolding getOrderStatus_def p e ..
next
  fix cls executorAbi
  assume resolved: "getClassAt (starknetProvider config) (starknetExecutorContract config) = Inr cls
                    \<and> abi cls = Some executorAbi"
  then show "snd (getOrderStatus config parameters) =
               [GetClassAt (starknetExecutorContract config),
                CallContract executorAbi (starknetExecutorContract config) ''get_order_status''
                  [orderHash parameters]]"
    by (simp add: getOrderStatus_def contract_call_def CallData_compile_def Let_def
        split: sum.splits)
  from resolved show "fst (getOrderStatus config parameters) =
               (case callContract (starknetProvider config) executorAbi
                       (starknetExecutorContract config) ''get_order_status''
                       [orderHash parameters] of
                  Inl rejection \<Rightarrow> Inl rejection
                | Inr status_enum \<Rightarrow> Inr \<lparr>orderStatus = activeVariant status_enum\<rparr>)"
    by (simp add: getOrderStatus_def contract_call_def CallData_compile_def Let_def
        split: sum.splits)
next
  fix config' :: "'c Config_scheme"
  assume agree: "starknetExecutorContract config' = starknetExecutorContract config
         \<and> getClassAt (starknetProvider config') (starknetExecutorContract config)
             = getClassAt (starknetProvider config) (starknetExecutorContract config)
         \<and> (\<forall>executorAbi method calldata.
               callContract (starknetProvider config') executorAbi
                 (starknetExecutorContract config) method calldata
               = callContract (starknetProvider config) executorAbi
                   (starknetExecutorContract config) method calldata)"
  then have e: "starknetExecutorContract config' = starknetExecutorContract config"
    and c: "getClassAt (starknetProvider config') (starknetExecutorContract config)
             = getClassAt (starknetProvider config) (starknetExecutorContract config)"
    and s: "\<And>executorAbi method calldata.
               callContract (starknetProvider config') executorAbi
                 (starknetExecutorContract config) method calldata
               = callContract (starknetProvider config) executorAbi
                   (starknetExecutorContract config) method calldata"
    by simp_all
  show "getOrderStatus config' parameters = getOrderStatus config parameters"
    by (simp add: getOrderStatus_def contract_call_def e c s Let_def
        split: sum.splits option.splits)
qed

text \<open>
  The statement at a provider that knows an order-book contract too, answering
  \<open>Fulfilled\<close> there and \<open>Open\<close> at the executor: the status read is \<open>Open\<close>,
  and stays the same when the order book's answer changes.
\<close>

theorem getOrderStatus_targets_executor_witness:
  "snd (getOrderStatus (example_config (two_contract_provider status_open status_fulfilled))
         \<lparr>orderHash = 7\<rparr>)
     = [GetClassAt dev_executor, CallContract executor_abi dev_executor ''get_order_status'' [7]]
   \<and> fst (getOrderStatus (example_config (two_contract_provider status_open status_fulfilled))
         \<lparr>orderHash = 7\<rparr>) = Inr \<lparr>orderStatus = ''Open''\<rparr>
   \<and> callContract (two_contract_provider status_open status_fulfilled) executor_abi dev_orderbook
         ''get_order_status'' [7] = Inr status_fulfilled
   \<and> lookup_role DEV_CONTRACTS ''executor'' = Some dev_executor
   \<and> lookup_role DEV_CONTRACTS ''orderbook'' = Some dev_orderbook
   \<and> dev_orderbook \<noteq> dev_executor
   \<and> getOrderStatus
        ((example_config (two_contract_provider status_open status_fulfilled))
           \<lparr>starknetCurrencyContract := dev_orderbook\<rparr>) \<lparr>orderHash = 7\<rparr>
     = getOrderStatus (example_config (two_contract_provider status_open status_fulfilled))
         \<lparr>orderHash = 7\<rparr>
   \<and> getOrderStatus (example_config (two_contract_provider status_open status_open))
         \<lparr>orderHash = 7\<rparr>
     = getOrderStatus (example_config (two_contract_provider status_open status_fulfilled))
         \<lparr>orderHash = 7\<rparr>"
proof -
  let ?provider = "two_contract_provider status_open status_fulfilled"
  let ?config = "example_config ?provider"
  let ?other = "example_config (two_contract_provider status_open status_open)"
  note t = getOrderStatus_targets_executor [of ?config "\<lparr>orderHash = 7\<rparr>"]
  have ex: "starknetExecutorContract ?config = dev_executor"
    by (simp add: example_config_def)
  have tables: "lookup_role DEV_CONTRACTS ''executor'' = Some dev_executor
    \<and> lookup_role DEV_CONTRACTS ''orderbook'' = Some dev_orderbook
    \<and> dev_orderbook \<noteq> dev_executor"
    by (simp add: lookup_role_def DEV_CONTRACTS_def dev_executor_def dev_orderbook_def)
  have resolved: "getClassAt (starknetProvider ?config) (starknetExecutorContract ?config)
                    = Inr \<lparr>abi = Some executor_abi\<rparr>
                  \<and> abi \<lparr>abi = Some executor_abi\<rparr> = Some executor_abi"
    by (simp add: example_config_def two_contract_provider_def)
  have answer: "callContract (starknetProvider ?config) executor_abi dev_executor
                  ''get_order_status'' [7] = Inr status_open"
    by (simp add: example_config_def two_contract_provider_def)
  have elsewhere: "callContract ?provider executor_abi dev_orderbook ''get_order_status'' [7]
                     = Inr status_fulfilled"
    using tables by (simp add: two_contract_provider_def)
  have variant: "activeVariant status_open = ''Open''"
    by (simp add: activeVariant_def status_open_def)
  from t [THEN conjunct2, THEN conjunct2, THEN conjunct2, THEN conjunct1, THEN spec, THEN spec,
      THEN mp, OF resolved]
  have read: "snd (getOrderStatus ?config \<lparr>orderHash = 7\<rparr>)
      = [GetClassAt dev_executor, CallContract executor_abi dev_executor ''get_order_status'' [7]]
    \<and> fst (getOrderStatus ?config \<lparr>orderHash = 7\<rparr>) = Inr \<lparr>orderStatus = ''Open''\<rparr>"
    by (simp add: ex answer variant)
  have same_fields: "getOrderStatus (?config\<lparr>starknetCurrencyContract := dev_orderbook\<rparr>)
                 \<lparr>orderHash = 7\<rparr> = getOrderStatus ?config \<lparr>orderHash = 7\<rparr>"
    by (rule t [THEN conjunct2, THEN conjunct2, THEN conjunct1, THEN spec, THEN mp]) simp
  have same_executor: "getOrderStatus ?other \<lparr>orderHash = 7\<rparr>
                         = getOrderStatus ?config \<lparr>orderHash = 7\<rparr>"
    by (rule t [THEN conjunct2, THEN conjunct2, THEN conjunct2, THEN conjunct2, THEN spec, THEN mp])
       (simp add: example_config_def two_contract_provider_def)
  from read elsewhere tables same_fields same_executor show ?thesis
    by simp
qed

subsection \<open>useCancelCollectionOffer\<close>

text \<open>
  Claim C8. The promise returned by \<open>cancel\<close> is always fulfilled, whatever the
  core action does. Every invocation first sets the status to \<open>loading\<close> and then
  calls the core action; on a failure the status is set to \<open>error\<close> and the error
  is logged, on success the status is set to \<open>success\<close>.
\<close>

theorem cancel_never_rejects:
  "fst (cancel cancelCollectionOffer config parameters st) = Inr ()
   \<and> effects (snd (cancel cancelCollectionOffer config parameters st)) =
       effects st @
         SetStatus Status_loading # CancelCollectionOfferCall (cancel_arguments parameters) #
           (case cancelCollectionOffer config (cancel_arguments parameters) of
              Inl err \<Rightarrow> [SetStatus Status_error, ConsoleError err]
            | Inr _ \<Rightarrow> [SetStatus Status_success])
   \<and> status (snd (cancel cancelCollectionOffer config parameters st)) =
       (case cancelCollectionOffer config (cancel_arguments parameters) of
          Inl _ \<Rightarrow> Status_error
        | Inr _ \<Rightarrow> Status_success)"
  by (simp add: cancel_def setStatus_def console_error_def Let_def split: sum.splits)

theorem cancel_never_rejects_witness:
  "fst (cancel rejecting_cancelCollectionOffer
          (example_config (example_provider (Some executor_abi) status_open))
          example_cancel_parameters useCancelCollectionOffer) = Inr ()
   \<and> effects (snd (cancel rejecting_cancelCollectionOffer
          (example_config (example_provider (Some executor_abi) status_open))
          example_cancel_parameters useCancelCollectionOffer)) =
       [SetStatus Status_loading,
        CancelCollectionOfferCall (cancel_arguments example_cancel_parameters),
        SetStatus Status_error, ConsoleError (RpcFailure ''transaction reverted'')]
   \<and> status (snd (cancel rejecting_cancelCollectionOffer
          (example_config (example_provider (Some executor_abi) status_open))
          example_cancel_parameters useCancelCollectionOffer)) = Status_error"
  using cancel_never_rejects [of rejecting_cancelCollectionOffer
      "example_config (example_provider (Some executor_abi) status_open)"
      example_cancel_parameters useCancelCollectionOffer]
  by (simp add: rejecting_cancelCollectionOffer_def useCancelCollectionOffer_def)

subsection \<open>Address tables\<close>

text \<open>
  Claim C10. The tables do not share one role set: the Sepolia table is empty, so
  no role can be looked up in it; the role \<open>eth\<close> is in the development table only,
  not in the Goerli and Mainnet tables.
\<close>

theorem address_tables_not_uniform:
  "SEPOLIA_CONTRACTS = []
   \<and> (\<forall>role. lookup_role SEPOLIA_CONTRACTS role = None)
   \<and> lookup_role DEV_CONTRACTS ''eth''
       = Some ''0x200184bde479ccffa50a89485417c907bc1d3779f9b1863d2158733135facce''
   \<and> lookup_role GOERLI_CONTRACTS ''eth'' = None
   \<and> lookup_role MAINNET_CONTRACTS ''eth'' = None
   \<and> map fst GOERLI_CONTRACTS = [''nftContract'', ''messaging'', ''executor'', ''orderbook'']
   \<and> map fst MAINNET_CONTRACTS = [''nftContract'', ''messaging'', ''executor'', ''orderbook'']
   \<and> map fst DEV_CONTRACTS = [''messaging'', ''executor'', ''nftContract'', ''eth'', ''orderbook'']
   \<and> set (map fst SEPOLIA_CONTRACTS) \<noteq> set (map fst GOERLI_CONTRACTS)
   \<and> set (map fst DEV_CONTRACTS) \<noteq> set (map fst GOERLI_CONTRACTS)"
proof -
  have sepolia: "SEPOLIA_CONTRACTS = []"
    by (simp add: SEPOLIA_CONTRACTS_def)
  have no_role: "\<forall>role. lookup_role SEPOLIA_CONTRACTS role = None"
    by (simp add: SEPOLIA_CONTRACTS_def lookup_role_def)
  have dev: "lookup_role DEV_CONTRACTS ''eth''
       = Some ''0x200184bde479ccffa50a89485417c907bc1d3779f9b1863d2158733135facce''"
    by (simp add: DEV_CONTRACTS_def lookup_role_def)
  have goerli: "lookup_role GOERLI_CONTRACTS ''eth'' = None"
    by (simp add: GOERLI_CONTRACTS_def lookup_role_def)
  have mainnet: "lookup_role MAINNET_CONTRACTS ''eth'' = None"
    by (simp add: MAINNET_CONTRACTS_def lookup_role_def)
  have keys_goerli:
    "map fst GOERLI_CONTRACTS = [''nftContract'', ''messaging'', ''executor'', ''orderbook'']"
    by (simp add: GOERLI_CONTRACTS_def)
  have keys_mainnet:
    "map fst MAINNET_CONTRACTS = [''nftContract'', ''messaging'', ''executor'', ''orderbook'']"
    by (simp add: MAINNET_CONTRACTS_def)
  have keys_dev:
    "map fst DEV_CONTRACTS = [''messaging'', ''executor'', ''nftContract'', ''eth'', ''orderbook'']"
    by (simp add: DEV_CONTRACTS_def)
  have "''eth'' \<in> set (map fst DEV_CONTRACTS)" "''eth'' \<notin> set (map fst GOERLI_CONTRACTS)"
    unfolding keys_dev keys_goerli by simp_all
  then have dev_differs: "set (map fst DEV_CONTRACTS) \<noteq> set (map fst GOERLI_CONTRACTS)"
    by metis
  have sepolia_differs: "set (map fst SEPOLIA_CONTRACTS) \<noteq> set (map fst GOERLI_CONTRACTS)"
    unfolding keys_goerli sepolia by simp
  show ?thesis
    by (intro conjI) (fact sepolia no_role dev goerli mainnet keys_goerli keys_mainnet keys_dev
        sepolia_differs dev_differs)+
qed

section \<open>Results on the components modelled from the specification\<close>

subsection \<open>Address registry\<close>





subsection \<open>Approval coordinator\<close>

lemma new_events_append [simp]:
  "trace ch1 = trace ch0 @ evs \<Longrightarrow> new_events ch0 ch1 = evs"
  by (simp add: new_events_def)

lemma ensureAllowance_sufficient:
  "required \<le> allowances ch (account, spender, currency) \<Longrightarrow>
     ensureAllowance account spender currency required ch = (Inr (), ch)"
  by (simp add: ensureAllowance_def)

lemma ensureAllowance_insufficient:
  assumes "allowances ch (account, spender, currency) < required"
  shows "ensureAllowance account spender currency required ch =
     (case reverting ch (ApproveTx account spender currency required) of
        Some reason \<Rightarrow>
          (Inl (ApprovalError reason),
           ch\<lparr>trace := trace ch @ [Broadcast (ApproveTx account spender currency required),
                                     RevertObserved (ApproveTx account spender currency required)]\<rparr>)
      | None \<Rightarrow>
          (Inr (),
           ch\<lparr>allowances := (allowances ch)((account, spender, currency) := required),
              trace := trace ch @ [Broadcast (ApproveTx account spender currency required),
                                   InclusionObserved (ApproveTx account spender currency required)]\<rparr>))"
  using assms
  by (simp add: ensureAllowance_def gateway_write_def await_inclusion_def Let_def
      split: option.splits)

text \<open>
  Claim C3. If the current allowance is at least the required amount,
  \<open>ensureAllowance\<close> returns at once and leaves the ledger and its trace as they
  were: no transaction. Otherwise it broadcasts exactly one transaction, an
  approval for exactly the required amount, and returns only once that
  transaction's outcome has been observed; it succeeds exactly when the approval
  was included, and the allowance is then the required amount.
\<close>

theorem ensureAllowance_zero_or_one_exact_approval:
  "(required \<le> allowances ch (account, spender, currency) \<longrightarrow>
      ensureAllowance account spender currency required ch = (Inr (), ch)
      \<and> broadcasts (new_events ch (snd (ensureAllowance account spender currency required ch))) = [])
   \<and> (allowances ch (account, spender, currency) < required \<longrightarrow>
      broadcasts (new_events ch (snd (ensureAllowance account spender currency required ch)))
        = [ApproveTx account spender currency required]
      \<and> new_events ch (snd (ensureAllowance account spender currency required ch))
        = [Broadcast (ApproveTx account spender currency required),
           (if reverting ch (ApproveTx account spender currency required) = None
            then InclusionObserved (ApproveTx account spender currency required)
            else RevertObserved (ApproveTx account spender currency required))]
      \<and> (fst (ensureAllowance account spender currency required ch) = Inr ()
           \<longleftrightarrow> reverting ch (ApproveTx account spender currency required) = None)
      \<and> (fst (ensureAllowance account spender currency required ch) = Inr () \<longrightarrow>
           allowances (snd (ensureAllowance account spender currency required ch))
             (account, spender, currency) = required))"
proof (intro conjI impI)
  assume "required \<le> allowances ch (account, spender, currency)"
  then have e: "ensureAllowance account spender currency required ch = (Inr (), ch)"
    by (rule ensureAllowance_sufficient)
  show "ensureAllowance account spender currency required ch = (Inr (), ch)"
    by (rule e)
  show "broadcasts (new_events ch (snd (ensureAllowance account spender currency required ch))) = []"
    by (simp add: e new_events_def)
next
  assume less: "allowances ch (account, spender, currency) < required"
  note e = ensureAllowance_insufficient [OF less]
  show "broadcasts (new_events ch (snd (ensureAllowance account spender currency required ch)))
        = [ApproveTx account spender currency required]"
    by (cases "reverting ch (ApproveTx account spender currency required)") (simp_all add: e)
  show "new_events ch (snd (ensureAllowance account spender currency required ch))
        = [Broadcast (ApproveTx account spender currency required),
           (if reverting ch (ApproveTx account spender currency required) = None
            then InclusionObserved (ApproveTx account spender currency required)
            else RevertObserved (ApproveTx account spender currency required))]"
    by (cases "reverting ch (ApproveTx account spender currency required)") (simp_all add: e)
  show "fst (ensureAllowance account spender currency required ch) = Inr ()
           \<longleftrightarrow> reverting ch (ApproveTx account spender currency required) = None"
    by (cases "reverting ch (ApproveTx account spender currency required)") (simp_all add: e)
  show "allowances (snd (ensureAllowance account spender currency required ch))
             (account, spender, currency) = required"
    if "fst (ensureAllowance account spender currency required ch) = Inr ()"
    using that
    by (cases "reverting ch (ApproveTx account spender currency required)") (simp_all add: e)
qed

theorem ensureAllowance_zero_or_one_exact_approval_witness:
  "ensureAllowance example_account dev_executor dev_eth 50 (example_chain 200)
     = (Inr (), example_chain 200)
   \<and> broadcasts (new_events (example_chain 200)
        (snd (ensureAllowance example_account dev_executor dev_eth 50 (example_chain 200)))) = []
   \<and> broadcasts (new_events (example_chain 0)
        (snd (ensureAllowance example_account dev_executor dev_eth 100 (example_chain 0))))
      = [ApproveTx example_account dev_executor dev_eth 100]
   \<and> new_events (example_chain 0)
        (snd (ensureAllowance example_account dev_executor dev_eth 100 (example_chain 0)))
      = [Broadcast (ApproveTx example_account dev_executor dev_eth 100),
         InclusionObserved (ApproveTx example_account dev_executor dev_eth 100)]
   \<and> fst (ensureAllowance example_account dev_executor dev_eth 100 (example_chain 0)) = Inr ()
   \<and> allowances (snd (ensureAllowance example_account dev_executor dev_eth 100 (example_chain 0)))
        (example_account, dev_executor, dev_eth) = 100"
proof -
  have enough: "(50::nat) \<le> allowances (example_chain 200) (example_account, dev_executor, dev_eth)"
    by (simp add: example_chain_def)
  have short: "allowances (example_chain 0) (example_account, dev_executor, dev_eth) < (100::nat)"
    by (simp add: example_chain_def)
  have ok: "reverting (example_chain 0) (ApproveTx example_account dev_executor dev_eth 100) = None"
    by (simp add: example_chain_def)
  from ensureAllowance_zero_or_one_exact_approval
         [of 50 "example_chain 200" example_account dev_executor dev_eth]
       ensureAllowance_zero_or_one_exact_approval
         [of 100 "example_chain 0" example_account dev_executor dev_eth]
       enough short ok
  show ?thesis
    by simp
qed

subsection \<open>Order submitter\<close>

text \<open>The events of one \<open>submit\<close>, by case.\<close>

lemma submit_new_events:
  "new_events ch (snd (submit hash spender account intent ch)) =
     (let approval = ApproveTx account spender (currencyAddress intent) (startAmount intent);
          creation = CreateOrderTx account (hash intent);
          creation_events =
            [Broadcast creation,
             (if reverting ch creation = None then InclusionObserved creation
              else RevertObserved creation)]
      in if startAmount intent \<le> allowances ch (account, spender, currencyAddress intent)
         then creation_events
         else if reverting ch approval = None
         then [Broadcast approval, InclusionObserved approval] @ creation_events
         else [Broadcast approval, RevertObserved approval])"
proof (cases "startAmount intent \<le> allowances ch (account, spender, currencyAddress intent)")
  case True
  then show ?thesis
    by (cases "reverting ch (CreateOrderTx account (hash intent))")
       (simp_all add: submit_def ensureAllowance_sufficient gateway_write_def
          await_inclusion_def Let_def)
next
  case False
  then have less: "allowances ch (account, spender, currencyAddress intent) < startAmount intent"
    by simp
  show ?thesis
  proof (cases "reverting ch (ApproveTx account spender (currencyAddress intent) (startAmount intent))")
    case None
    with less show ?thesis
      by (cases "reverting ch (CreateOrderTx account (hash intent))")
         (simp_all add: submit_def ensureAllowance_insufficient gateway_write_def
            await_inclusion_def Let_def)
  next
    case (Some reason)
    with less show ?thesis
      by (simp add: submit_def ensureAllowance_insufficient Let_def)
  qed
qed

text \<open>
  Claim C4. In a run of \<open>submit\<close> that needed an approval, every broadcast of an
  order creation comes after the observation of the approval's inclusion in the
  run's events; and when the run returns a hash, it is the intent's hash and the
  last event is the observation of the creation's inclusion.
\<close>

theorem submit_creation_after_approval_inclusion:
  assumes "allowances ch (account, spender, currencyAddress intent) < startAmount intent"
  shows "(\<forall>i a h. i < length (new_events ch (snd (submit hash spender account intent ch)))
             \<and> new_events ch (snd (submit hash spender account intent ch)) ! i
                 = Broadcast (CreateOrderTx a h)
           \<longrightarrow> (\<exists>j<i. new_events ch (snd (submit hash spender account intent ch)) ! j
                 = InclusionObserved
                     (ApproveTx account spender (currencyAddress intent) (startAmount intent))))
         \<and> (\<forall>h. fst (submit hash spender account intent ch) = Inr h
           \<longrightarrow> h = hash intent
               \<and> last (new_events ch (snd (submit hash spender account intent ch)))
                   = InclusionObserved (CreateOrderTx account h))"
proof (cases "reverting ch (ApproveTx account spender (currencyAddress intent) (startAmount intent))")
  case None
  let ?evs = "new_events ch (snd (submit hash spender account intent ch))"
  from None assms have evs: "?evs =
      [Broadcast (ApproveTx account spender (currencyAddress intent) (startAmount intent)),
       InclusionObserved (ApproveTx account spender (currencyAddress intent) (startAmount intent)),
       Broadcast (CreateOrderTx account (hash intent)),
       (if reverting ch (CreateOrderTx account (hash intent)) = None
        then InclusionObserved (CreateOrderTx account (hash intent))
        else RevertObserved (CreateOrderTx account (hash intent)))]"
    by (simp add: submit_new_events Let_def)
  have order: "\<exists>j<i. ?evs ! j = InclusionObserved
                 (ApproveTx account spender (currencyAddress intent) (startAmount intent))"
    if "i < length ?evs" and "?evs ! i = Broadcast (CreateOrderTx a h)" for i a h
  proof -
    from that(1) have "i < 4"
      by (simp add: evs)
    then consider "i = 0" | "i = 1" | "i = 2" | "i = 3"
      by linarith
    then have "i = 2"
      using that(2) by cases (simp_all add: evs split: if_splits)
    then have "1 < i \<and> ?evs ! 1 = InclusionObserved
                 (ApproveTx account spender (currencyAddress intent) (startAmount intent))"
      by (simp add: evs)
    then show ?thesis
      by blast
  qed
  have returned: "h = hash intent \<and> last ?evs = InclusionObserved (CreateOrderTx account h)"
    if "fst (submit hash spender account intent ch) = Inr h" for h
  proof (cases "reverting ch (CreateOrderTx account (hash intent))")
    case inner: None
    with that None assms have "h = hash intent"
      by (simp add: submit_def ensureAllowance_insufficient gateway_write_def
          await_inclusion_def Let_def)
    with inner show ?thesis
      by (simp add: evs)
  next
    case (Some reason)
    with that None assms have False
      by (simp add: submit_def ensureAllowance_insufficient gateway_write_def
          await_inclusion_def Let_def)
    then show ?thesis ..
  qed
  from order returned show ?thesis
    by blast
next
  case (Some reason)
  let ?evs = "new_events ch (snd (submit hash spender account intent ch))"
  from Some assms have evs: "?evs =
      [Broadcast (ApproveTx account spender (currencyAddress intent) (startAmount intent)),
       RevertObserved (ApproveTx account spender (currencyAddress intent) (startAmount intent))]"
    by (simp add: submit_new_events Let_def)
  have no_creation: False
    if "i < length ?evs" and "?evs ! i = Broadcast (CreateOrderTx a h)" for i a h
  proof -
    from that(1) have "i < 2"
      by (simp add: evs)
    then consider "i = 0" | "i = 1"
      by linarith
    then show False
      using that(2) by cases (simp_all add: evs)
  qed
  have failed: "fst (submit hash spender account intent ch) \<noteq> Inr h" for h
    using Some assms by (simp add: submit_def ensureAllowance_insufficient Let_def)
  from no_creation failed show ?thesis
    by blast
qed

theorem submit_creation_after_approval_inclusion_witness:
  "allowances (example_chain 0) (example_account, dev_executor, currencyAddress (example_intent 100))
     < startAmount (example_intent 100)
   \<and> new_events (example_chain 0)
        (snd (submit example_hash dev_executor example_account (example_intent 100) (example_chain 0)))
      = [Broadcast (ApproveTx example_account dev_executor dev_eth 100),
         InclusionObserved (ApproveTx example_account dev_executor dev_eth 100),
         Broadcast (CreateOrderTx example_account 1),
         InclusionObserved (CreateOrderTx example_account 1)]
   \<and> (\<exists>j<2. new_events (example_chain 0)
        (snd (submit example_hash dev_executor example_account (example_intent 100) (example_chain 0))) ! j
      = InclusionObserved (ApproveTx example_account dev_executor dev_eth 100))
   \<and> fst (submit example_hash dev_executor example_account (example_intent 100) (example_chain 0))
      = Inr 1"
proof -
  let ?run = "submit example_hash dev_executor example_account (example_intent 100) (example_chain 0)"
  let ?evs = "new_events (example_chain 0) (snd ?run)"
  have required: "allowances (example_chain 0)
        (example_account, dev_executor, currencyAddress (example_intent 100))
      < startAmount (example_intent 100)"
    by (simp add: example_chain_def example_intent_def)
  have evs: "?evs = [Broadcast (ApproveTx example_account dev_executor dev_eth 100),
         InclusionObserved (ApproveTx example_account dev_executor dev_eth 100),
         Broadcast (CreateOrderTx example_account 1),
         InclusionObserved (CreateOrderTx example_account 1)]"
    by (simp add: submit_new_events example_chain_def example_intent_def example_hash_def Let_def)
  have returned: "fst ?run = Inr 1"
    by (simp add: submit_def ensureAllowance_def gateway_write_def await_inclusion_def Let_def
        example_chain_def example_intent_def example_hash_def)
  have at: "2 < length ?evs \<and> ?evs ! 2 = Broadcast (CreateOrderTx example_account 1)"
    by (simp add: evs)
  note ordered = submit_creation_after_approval_inclusion [OF required, of example_hash,
      THEN conjunct1, THEN spec, THEN spec, THEN spec, THEN mp, OF at]
  then have "\<exists>j<2. ?evs ! j = InclusionObserved (ApproveTx example_account dev_executor dev_eth 100)"
    by (simp add: example_intent_def)
  with required evs returned show ?thesis
    by blast
qed

subsection \<open>Polling status resolver\<close>










end
